theory Spec2Isabelle
  imports Main
begin

section \<open>Python values\<close>

text \<open>
  A Python \<^verbatim>\<open>str\<close> is a sequence of Unicode code points. String constants of the
  source are written \<open>lit ''...''\<close>.
\<close>

type_synonym pystr = "nat list"

definition lit :: "string \<Rightarrow> pystr" where
  "lit s = map of_char s"

text \<open>
  The values \<^verbatim>\<open>json.loads\<close> produces: \<^verbatim>\<open>None\<close>, \<^verbatim>\<open>bool\<close>, \<^verbatim>\<open>int\<close> (unbounded),
  \<^verbatim>\<open>float\<close>, \<^verbatim>\<open>str\<close>, \<^verbatim>\<open>list\<close> and \<^verbatim>\<open>dict\<close> with string keys in insertion order.
  A float is carried as the text \<^verbatim>\<open>repr\<close> prints for it, which determines it and is
  ASCII; the handlers only ever print floats. The floats that are no numbers print as
  \<^verbatim>\<open>nan\<close>, \<^verbatim>\<open>inf\<close> and \<^verbatim>\<open>-inf\<close> (the decoder makes them from \<^verbatim>\<open>NaN\<close>, \<^verbatim>\<open>Infinity\<close> and from
  literals too large for a float). \<open>JNull\<close> is Python's \<^verbatim>\<open>None\<close>.
\<close>

datatype json =
    JNull
  | JBool bool
  | JInt int
  | JFloat string
  | JStr pystr
  | JArr "json list"
  | JObj "(pystr \<times> json) list"

text \<open>
  The exceptions the handlers can raise. \<open>HTTPException\<close> carries the status code and the
  detail text; \<open>BodyError\<close> stands for a request body that \<^verbatim>\<open>request.json()\<close> cannot decode.
  \<open>ValueError\<close> and \<open>UnicodeEncodeError\<close> come from the constructor of a JSON response.
\<close>

datatype error =
    AttributeError
  | KeyError pystr
  | HTTPException int pystr
  | BodyError
  | ValueError
  | UnicodeEncodeError

text \<open>
  \<^verbatim>\<open>obj.get(key, default)\<close>. Of the decoded values only a \<^verbatim>\<open>dict\<close> has the method; on any
  other value the attribute lookup raises \<^verbatim>\<open>AttributeError\<close>.
\<close>

fun py_get :: "json \<Rightarrow> pystr \<Rightarrow> json \<Rightarrow> error + json" where
  "py_get (JObj kvs) key dflt = Inr (case map_of kvs key of None \<Rightarrow> dflt | Some v \<Rightarrow> v)"
| "py_get _ key dflt = Inl AttributeError"

subsection \<open>Case mapping\<close>

text \<open>
  The tables of the Unicode character database the interpreter is built with: the full
  uppercase mapping and the printable property. The model fixes both on ASCII and reads
  them from this record beyond it.
\<close>

record unicode_db =
  to_upper_full :: "nat \<Rightarrow> nat list"
  is_printable :: "nat \<Rightarrow> bool"

definition upper_char :: "unicode_db \<Rightarrow> nat \<Rightarrow> pystr" where
  "upper_char db c =
     (if 97 \<le> c \<and> c \<le> 122 then [c - 32]
      else if c < 128 then [c]
      else to_upper_full db c)"

text \<open>\<^verbatim>\<open>str.upper()\<close>: every code point is replaced by its full uppercase mapping.\<close>

definition py_upper :: "unicode_db \<Rightarrow> pystr \<Rightarrow> pystr" where
  "py_upper db s = concat (map (upper_char db) s)"

subsection \<open>Printing: \<^verbatim>\<open>str\<close> and \<^verbatim>\<open>repr\<close>\<close>

fun digits :: "nat \<Rightarrow> pystr" where
  "digits n = (if n < 10 then [48 + n] else digits (n div 10) @ [48 + n mod 10])"

declare digits.simps [simp del]

definition str_int :: "int \<Rightarrow> pystr" where
  "str_int i = (if i < 0 then 45 # digits (nat (- i)) else digits (nat i))"

definition hex_digit :: "nat \<Rightarrow> nat" where
  "hex_digit d = (if d < 10 then 48 + d else 87 + d)"

fun hex_fixed :: "nat \<Rightarrow> nat \<Rightarrow> pystr" where
  "hex_fixed 0 n = []"
| "hex_fixed (Suc w) n = hex_fixed w (n div 16) @ [hex_digit (n mod 16)]"

text \<open>
  \<^verbatim>\<open>repr\<close> of a string: the quote is \<^verbatim>\<open>'\<close> unless the text holds a \<^verbatim>\<open>'\<close> and no \<^verbatim>\<open>"\<close>; the
  quote and the backslash are escaped, tab, newline and carriage return are written
  \<^verbatim>\<open>\t\<close>, \<^verbatim>\<open>\n\<close>, \<^verbatim>\<open>\r\<close>, and any other non-printable code point as a hex escape.
\<close>

definition repr_char :: "unicode_db \<Rightarrow> nat \<Rightarrow> nat \<Rightarrow> pystr" where
  "repr_char db quote c =
     (if c = quote \<or> c = 92 then [92, c]
      else if c = 9 then [92, 116]
      else if c = 10 then [92, 110]
      else if c = 13 then [92, 114]
      else if c < 32 \<or> c = 127 then [92, 120] @ hex_fixed 2 c
      else if c < 127 then [c]
      else if is_printable db c then [c]
      else if c < 256 then [92, 120] @ hex_fixed 2 c
      else if c < 65536 then [92, 117] @ hex_fixed 4 c
      else [92, 85] @ hex_fixed 8 c)"

definition repr_str :: "unicode_db \<Rightarrow> pystr \<Rightarrow> pystr" where
  "repr_str db s =
     (let quote = (if 39 \<in> set s \<and> 34 \<notin> set s then 34 else 39)
      in [quote] @ concat (map (repr_char db quote) s) @ [quote])"

fun join :: "pystr \<Rightarrow> pystr list \<Rightarrow> pystr" where
  "join sep [] = []"
| "join sep [x] = x"
| "join sep (x # y # ys) = x @ sep @ join sep (y # ys)"

fun py_repr :: "unicode_db \<Rightarrow> json \<Rightarrow> pystr" where
  "py_repr db JNull = lit ''None''"
| "py_repr db (JBool b) = (if b then lit ''True'' else lit ''False'')"
| "py_repr db (JInt i) = str_int i"
| "py_repr db (JFloat r) = lit r"
| "py_repr db (JStr s) = repr_str db s"
| "py_repr db (JArr xs) = lit ''['' @ join (lit '', '') (map (py_repr db) xs) @ lit '']''"
| "py_repr db (JObj kvs) =
     lit ''{'' @ join (lit '', '') (map (\<lambda>(k, v). repr_str db k @ lit '': '' @ py_repr db v) kvs)
       @ lit ''}''"

text \<open>
  \<^verbatim>\<open>str(x)\<close>: a string is itself, every other value prints as its \<^verbatim>\<open>repr\<close>. On decoded
  values it does not raise: the decoder already refuses the integers too long to print.
  Limits of memory and of recursion depth are outside the model.
\<close>

definition py_str :: "unicode_db \<Rightarrow> json \<Rightarrow> pystr" where
  "py_str db v = (case v of JStr s \<Rightarrow> s | _ \<Rightarrow> py_repr db v)"

subsection \<open>\<^verbatim>\<open>json.dumps\<close>\<close>

text \<open>
  The default encoder (\<^verbatim>\<open>ensure_ascii=True\<close>, separators \<^verbatim>\<open>", "\<close> and \<^verbatim>\<open>": "\<close>): inside a string
  everything outside the range from space to \<^verbatim>\<open>~\<close>, the double quote and the backslash are
  escaped, a code point above the basic plane as a surrogate pair. Its output never holds a
  line break.
\<close>

definition json_escape_char :: "nat \<Rightarrow> pystr" where
  "json_escape_char c =
     (if c = 34 then [92, 34]
      else if c = 92 then [92, 92]
      else if c = 10 then [92, 110]
      else if c = 13 then [92, 114]
      else if c = 9 then [92, 116]
      else if c = 12 then [92, 102]
      else if c = 8 then [92, 98]
      else if 32 \<le> c \<and> c < 127 then [c]
      else if c < 65536 then [92, 117] @ hex_fixed 4 c
      else [92, 117] @ hex_fixed 4 (55296 + (c - 65536) div 1024)
         @ [92, 117] @ hex_fixed 4 (56320 + (c - 65536) mod 1024))"

definition json_string :: "pystr \<Rightarrow> pystr" where
  "json_string s = [34] @ concat (map json_escape_char s) @ [34]"

definition json_float :: "string \<Rightarrow> pystr" where
  "json_float r =
     (if r = ''nan'' then lit ''NaN''
      else if r = ''inf'' then lit ''Infinity''
      else if r = ''-inf'' then lit ''-Infinity''
      else lit r)"

fun json_dumps :: "json \<Rightarrow> pystr" where
  "json_dumps JNull = lit ''null''"
| "json_dumps (JBool b) = (if b then lit ''true'' else lit ''false'')"
| "json_dumps (JInt i) = str_int i"
| "json_dumps (JFloat r) = json_float r"
| "json_dumps (JStr s) = json_string s"
| "json_dumps (JArr xs) = lit ''['' @ join (lit '', '') (map json_dumps xs) @ lit '']''"
| "json_dumps (JObj kvs) =
     lit ''{'' @ join (lit '', '') (map (\<lambda>(k, v). json_string k @ lit '': '' @ json_dumps v) kvs)
       @ lit ''}''"

section \<open>Event framing\<close>

text \<open>
  \<^verbatim>\<open>format_sse\<close> is the same function in both applications: the two lines
  \<^verbatim>\<open>event: <type>\<close> and \<^verbatim>\<open>data: <payload>\<close> and a blank line.
\<close>

definition format_sse :: "pystr \<Rightarrow> pystr \<Rightarrow> pystr" where
  "format_sse event data = lit ''event: '' @ event @ [10] @ lit ''data: '' @ data @ [10, 10]"

section \<open>The tools and the fixed results\<close>

definition input_schema :: json where
  "input_schema =
     JObj [(lit ''type'', JStr (lit ''object'')),
           (lit ''properties'',
              JObj [(lit ''input'',
                 JObj [(lit ''type'', JStr (lit ''string'')),
                       (lit ''description'', JStr (lit ''The string to be converted to uppercase.''))])]),
           (lit ''required'', JArr [JStr (lit ''input'')])]"

definition to_uppercase_tool :: json where
  "to_uppercase_tool =
     JObj [(lit ''name'', JStr (lit ''to-uppercase'')),
           (lit ''description'', JStr (lit ''Converts the input string to uppercase.'')),
           (lit ''inputSchema'', input_schema)]"

definition to_uppercase_slowly_tool :: json where
  "to_uppercase_slowly_tool =
     JObj [(lit ''name'', JStr (lit ''to-uppercase-slowly'')),
           (lit ''description'',
              JStr (lit ''Converts the input string to uppercase. (simulates slow processing)'')),
           (lit ''inputSchema'', input_schema)]"

text \<open>The list \<^verbatim>\<open>TOOLS\<close> of the Streamable application.\<close>

definition TOOLS :: json where
  "TOOLS = JArr [to_uppercase_tool, to_uppercase_slowly_tool]"

text \<open>The result of \<^verbatim>\<open>initialize\<close>, the same dictionary in both applications.\<close>

definition initialize_result :: json where
  "initialize_result =
     JObj [(lit ''protocolVersion'', JStr (lit ''2025-03-26'')),
           (lit ''serverInfo'',
              JObj [(lit ''name'', JStr (lit ''Python To-Uppercase Server'')),
                    (lit ''version'', JStr (lit ''1.0.0''))]),
           (lit ''capabilities'', JObj [(lit ''tools'', JObj [(lit ''listChanged'', JBool True)])])]"

text \<open>The result dictionary of a finished uppercase call.\<close>

definition text_result :: "pystr \<Rightarrow> json" where
  "text_result upper =
     JObj [(lit ''content'', JArr [JObj [(lit ''type'', JStr (lit ''text'')), (lit ''text'', JStr upper)]]),
           (lit ''isError'', JBool False)]"

section \<open>The Session-Registry application (\<^verbatim>\<open>sse/app.py\<close>)\<close>

subsection \<open>The dispatcher\<close>

text \<open>
  \<^verbatim>\<open>perform_to_uppercase(text)\<close> calls \<^verbatim>\<open>text.upper()\<close> on what it is given; only a string has
  that method.
\<close>

fun perform_to_uppercase :: "unicode_db \<Rightarrow> json \<Rightarrow> error + pystr" where
  "perform_to_uppercase db (JStr s) = Inr (py_upper db s)"
| "perform_to_uppercase db _ = Inl AttributeError"

definition method_not_found :: "json \<Rightarrow> json" where
  "method_not_found request_id =
     JObj [(lit ''jsonrpc'', JStr (lit ''2.0'')),
           (lit ''id'', request_id),
           (lit ''error'',
              JObj [(lit ''code'', JInt (- 32601)), (lit ''message'', JStr (lit ''Method not found''))])]"

definition build_response :: "unicode_db \<Rightarrow> json \<Rightarrow> error + json" where
  "build_response db request_payload =
     (case py_get request_payload (lit ''method'') JNull of
        Inl e \<Rightarrow> Inl e
      | Inr method \<Rightarrow>
     (case py_get request_payload (lit ''id'') JNull of
        Inl e \<Rightarrow> Inl e
      | Inr request_id \<Rightarrow>
        if method = JStr (lit ''initialize'') then
          Inr (JObj [(lit ''jsonrpc'', JStr (lit ''2.0'')), (lit ''id'', request_id),
                     (lit ''result'', initialize_result)])
        else if method = JStr (lit ''tools/list'') then
          Inr (JObj [(lit ''jsonrpc'', JStr (lit ''2.0'')), (lit ''id'', request_id),
                     (lit ''result'', JObj [(lit ''tools'', JArr [to_uppercase_tool])])])
        else if method = JStr (lit ''tools/call'') then
          (case py_get request_payload (lit ''params'') (JObj []) of
             Inl e \<Rightarrow> Inl e
           | Inr params \<Rightarrow>
          (case py_get params (lit ''name'') JNull of
             Inl e \<Rightarrow> Inl e
           | Inr name \<Rightarrow>
             if name = JStr (lit ''to-uppercase'') then
               (case py_get params (lit ''arguments'') (JObj []) of
                  Inl e \<Rightarrow> Inl e
                | Inr arguments \<Rightarrow>
               (case py_get arguments (lit ''input'') (JStr []) of
                  Inl e \<Rightarrow> Inl e
                | Inr input_value \<Rightarrow>
               (case perform_to_uppercase db input_value of
                  Inl e \<Rightarrow> Inl e
                | Inr upper \<Rightarrow>
                  Inr (JObj [(lit ''jsonrpc'', JStr (lit ''2.0'')), (lit ''id'', request_id),
                             (lit ''result'', text_result upper)]))))
             else Inr (method_not_found request_id)))
        else Inr (method_not_found request_id)))"

subsection \<open>The registry and the channels\<close>

text \<open>
  The registry's dictionary maps a session id to a queue object. A queue outlives its
  entry (the stream's generator keeps its own reference), so queues live in a store of
  their own, addressed by number: \<open>queues\<close> gives the frames waiting in each, oldest first,
  and \<open>next_queue\<close> is the address the next \<^verbatim>\<open>asyncio.Queue()\<close> gets. The lock makes each
  registry operation one step; here every operation is one step.
\<close>

record server_state =
  sessions :: "pystr \<rightharpoonup> nat"
  queues :: "nat \<Rightarrow> pystr list"
  next_queue :: nat

definition initial_state :: server_state where
  "initial_state = \<lparr>sessions = Map.empty, queues = (\<lambda>q. []), next_queue = 0\<rparr>"

definition SessionRegistry_create :: "server_state \<Rightarrow> pystr \<Rightarrow> nat \<times> server_state" where
  "SessionRegistry_create st session_id =
     (let queue = next_queue st
      in (queue,
          st\<lparr>sessions := (sessions st)(session_id \<mapsto> queue),
             queues := (queues st)(queue := []),
             next_queue := Suc queue\<rparr>))"

definition SessionRegistry_pop :: "server_state \<Rightarrow> pystr \<Rightarrow> nat option \<times> server_state" where
  "SessionRegistry_pop st session_id =
     (sessions st session_id, st\<lparr>sessions := (sessions st)(session_id := None)\<rparr>)"

definition SessionRegistry_get :: "server_state \<Rightarrow> pystr \<Rightarrow> error + nat" where
  "SessionRegistry_get st session_id =
     (case sessions st session_id of
        None \<Rightarrow> Inl (KeyError session_id)
      | Some queue \<Rightarrow> Inr queue)"

text \<open>\<^verbatim>\<open>queue.put(x)\<close> on an unbounded queue: the frame goes to the end and nothing waits.\<close>

definition queue_put :: "server_state \<Rightarrow> nat \<Rightarrow> pystr \<Rightarrow> server_state" where
  "queue_put st queue x = st\<lparr>queues := (queues st)(queue := queues st queue @ [x])\<rparr>"

text \<open>\<^verbatim>\<open>queue.get()\<close>: the oldest frame, or \<open>None\<close> while the queue is empty and the caller waits.\<close>

definition queue_get :: "server_state \<Rightarrow> nat \<Rightarrow> (pystr \<times> server_state) option" where
  "queue_get st queue =
     (case queues st queue of
        [] \<Rightarrow> None
      | x # rest \<Rightarrow> Some (x, st\<lparr>queues := (queues st)(queue := rest)\<rparr>))"

subsection \<open>The handlers\<close>

text \<open>
  What a handler returns: a JSON response, given by its status code and its content, or a
  streaming response, given by the frames its generator yields (or the exception that
  ends it before the first). A handler that raises returns \<open>Inl\<close>; the framework turns an
  \<open>HTTPException\<close> into a response with that status and any other exception into a server
  error.
\<close>

datatype http_response =
    JSONResponse int json
  | StreamingResponse "error + pystr list"

text \<open>
  \<^verbatim>\<open>JSONResponse(content=..., status_code=...)\<close> renders its body when it is constructed, inside
  the handler: \<^verbatim>\<open>json.dumps(content, ensure_ascii=False, allow_nan=False, ...)\<close> and then
  \<^verbatim>\<open>.encode("utf-8")\<close>. The first raises \<^verbatim>\<open>ValueError\<close> on a float that is no number, the
  second \<^verbatim>\<open>UnicodeEncodeError\<close> on a surrogate code point in a string or a key. A streaming
  response renders nothing when it is constructed, and the frames of both applications
  are ASCII.
\<close>

definition is_surrogate :: "nat \<Rightarrow> bool" where
  "is_surrogate c = (55296 \<le> c \<and> c \<le> 57343)"

fun has_nonfinite :: "json \<Rightarrow> bool" where
  "has_nonfinite (JFloat r) = (r = ''nan'' \<or> r = ''inf'' \<or> r = ''-inf'')"
| "has_nonfinite (JArr xs) = list_ex has_nonfinite xs"
| "has_nonfinite (JObj kvs) = list_ex (\<lambda>(k, v). has_nonfinite v) kvs"
| "has_nonfinite _ = False"

fun has_surrogate :: "json \<Rightarrow> bool" where
  "has_surrogate (JStr s) = list_ex is_surrogate s"
| "has_surrogate (JArr xs) = list_ex has_surrogate xs"
| "has_surrogate (JObj kvs) = list_ex (\<lambda>(k, v). list_ex is_surrogate k \<or> has_surrogate v) kvs"
| "has_surrogate _ = False"

definition JSONResponse_init :: "int \<Rightarrow> json \<Rightarrow> error + http_response" where
  "JSONResponse_init status_code content =
     (if has_nonfinite content then Inl ValueError
      else if has_surrogate content then Inl UnicodeEncodeError
      else Inr (JSONResponse status_code content))"

text \<open>
  \<^verbatim>\<open>GET /sse\<close>. \<open>session_id\<close> is the value \<^verbatim>\<open>uuid.uuid4().hex\<close> draws. The handler registers a
  fresh queue; the generator, once started, first puts the endpoint frame on that queue
  and from then on yields whatever the queue holds, and removes the session when it ends.
  \<open>url_for\<close> is what \<^verbatim>\<open>str(request.url_for("post_message"))\<close> returns or raises.
\<close>

definition sse_stream :: "server_state \<Rightarrow> pystr \<Rightarrow> nat \<times> server_state" where
  "sse_stream st session_id = SessionRegistry_create st session_id"

definition endpoint_url :: "error + pystr \<Rightarrow> pystr \<Rightarrow> pystr" where
  "endpoint_url url_for session_id =
     (case url_for of
        Inr url \<Rightarrow> url @ lit ''?sessionid='' @ session_id
      | Inl e \<Rightarrow> lit ''/message?sessionid='' @ session_id)"

definition event_generator_start :: "server_state \<Rightarrow> error + pystr \<Rightarrow> pystr \<Rightarrow> nat \<Rightarrow> server_state" where
  "event_generator_start st url_for session_id queue =
     queue_put st queue (format_sse (lit ''endpoint'') (endpoint_url url_for session_id))"

definition event_generator_next :: "server_state \<Rightarrow> nat \<Rightarrow> (pystr \<times> server_state) option" where
  "event_generator_next st queue = queue_get st queue"

definition event_generator_close :: "server_state \<Rightarrow> pystr \<Rightarrow> server_state" where
  "event_generator_close st session_id = snd (SessionRegistry_pop st session_id)"

text \<open>
  \<^verbatim>\<open>POST /message\<close>. \<open>query_sessionid\<close> is \<^verbatim>\<open>request.query_params.get("sessionid")\<close> and
  \<open>body_json\<close> what \<^verbatim>\<open>await request.json()\<close> returns or raises.
\<close>

record message_request =
  query_sessionid :: "pystr option"
  body_json :: "error + json"

definition post_message ::
  "unicode_db \<Rightarrow> server_state \<Rightarrow> message_request \<Rightarrow> (error + http_response) \<times> server_state" where
  "post_message db st request =
     (case query_sessionid request of
        None \<Rightarrow> (Inl (HTTPException 400 (lit ''sessionid must be provided for POST requests'')), st)
      | Some session_id \<Rightarrow>
        if session_id = [] then
          (Inl (HTTPException 400 (lit ''sessionid must be provided for POST requests'')), st)
        else
          (case SessionRegistry_get st session_id of
             Inl (KeyError k) \<Rightarrow>
               (Inl (HTTPException 404 (lit ''session not found; establish the SSE stream first'')), st)
           | Inl e \<Rightarrow> (Inl e, st)
           | Inr queue \<Rightarrow>
          (case body_json request of
             Inl e \<Rightarrow> (Inl e, st)
           | Inr payload \<Rightarrow>
          (case build_response db payload of
             Inl e \<Rightarrow> (Inl e, st)
           | Inr response \<Rightarrow>
               (JSONResponse_init 202 (JObj [(lit ''status'', JStr (lit ''accepted''))]),
                queue_put st queue (format_sse (lit ''message'') (json_dumps response)))))))"

section \<open>The Streamable application (\<^verbatim>\<open>streamable/app.py\<close>)\<close>

text \<open>
  \<^verbatim>\<open>base_response(result=None, error=None, request_id=None)\<close>: the envelope gets the
  \<^verbatim>\<open>error\<close> key when an error is given and the \<^verbatim>\<open>result\<close> key otherwise.
\<close>

definition base_response :: "json \<Rightarrow> json \<Rightarrow> json \<Rightarrow> json" where
  "base_response result error request_id =
     (let response = [(lit ''jsonrpc'', JStr (lit ''2.0'')), (lit ''id'', request_id)]
      in if error \<noteq> JNull then JObj (response @ [(lit ''error'', error)])
         else JObj (response @ [(lit ''result'', result)]))"

text \<open>\<^verbatim>\<open>range(a, b)\<close>.\<close>

definition py_range :: "int \<Rightarrow> int \<Rightarrow> int list" where
  "py_range a b = [a..b - 1]"

text \<open>
  The dictionary \<^verbatim>\<open>event_payload\<close> of step \<open>i\<close>. The percentage \<^verbatim>\<open>int(i * 100 / 10)\<close> divides
  in floating point; for the steps 1 to 10 the quotient is a whole number below 101, which
  the division returns exactly, so it is the integer quotient.
\<close>

definition event_payload :: "json \<Rightarrow> int \<Rightarrow> json" where
  "event_payload progress_token i =
     JObj [(lit ''jsonrpc'', JStr (lit ''2.0'')),
           (lit ''method'', JStr (lit ''notifications/progress'')),
           (lit ''params'',
              JObj [(lit ''progress'', JInt i),
                    (lit ''total'', JInt 10),
                    (lit ''progressToken'', progress_token),
                    (lit ''message'',
                       JStr (lit ''Server progress '' @ str_int (i * 100 div 10) @ lit ''%''))])]"

text \<open>
  The generator \<^verbatim>\<open>slow_uppercase_stream\<close>, in two layers: the dictionaries it serialises, in
  the order it yields them, and the frames. The three lookups run when the generator is
  first resumed; if one raises, the stream ends with no frame.
\<close>

definition slow_uppercase_events :: "unicode_db \<Rightarrow> json \<Rightarrow> json \<Rightarrow> pystr \<Rightarrow> error + json list" where
  "slow_uppercase_events db payload request_id input_value =
     (case py_get payload (lit ''params'') (JObj []) of
        Inl e \<Rightarrow> Inl e
      | Inr params \<Rightarrow>
     (case py_get params (lit ''_meta'') (JObj []) of
        Inl e \<Rightarrow> Inl e
      | Inr meta \<Rightarrow>
     (case py_get meta (lit ''progressToken'') JNull of
        Inl e \<Rightarrow> Inl e
      | Inr progress_token \<Rightarrow>
          Inr (map (event_payload progress_token) (py_range 1 11)
               @ [base_response (text_result (py_upper db input_value)) JNull request_id]))))"

definition slow_uppercase_stream :: "unicode_db \<Rightarrow> json \<Rightarrow> json \<Rightarrow> pystr \<Rightarrow> error + pystr list" where
  "slow_uppercase_stream db payload request_id input_value =
     (case slow_uppercase_events db payload request_id input_value of
        Inl e \<Rightarrow> Inl e
      | Inr events \<Rightarrow> Inr (map (\<lambda>ev. format_sse (lit ''message'') (json_dumps ev)) events))"

text \<open>\<^verbatim>\<open>POST /mcp\<close>, given the decoded body.\<close>

definition handle_mcp :: "unicode_db \<Rightarrow> json \<Rightarrow> error + http_response" where
  "handle_mcp db payload =
     (case py_get payload (lit ''method'') JNull of
        Inl e \<Rightarrow> Inl e
      | Inr method \<Rightarrow>
     (case py_get payload (lit ''id'') JNull of
        Inl e \<Rightarrow> Inl e
      | Inr request_id \<Rightarrow>
        if method = JStr (lit ''initialize'') then
          JSONResponse_init 200 (base_response initialize_result JNull request_id)
        else if method = JStr (lit ''tools/list'') then
          JSONResponse_init 200 (base_response (JObj [(lit ''tools'', TOOLS)]) JNull request_id)
        else if method = JStr (lit ''tools/call'') then
          (case py_get payload (lit ''params'') (JObj []) of
             Inl e \<Rightarrow> Inl e
           | Inr params \<Rightarrow>
          (case py_get params (lit ''name'') JNull of
             Inl e \<Rightarrow> Inl e
           | Inr tool_name \<Rightarrow>
          (case py_get params (lit ''arguments'') (JObj []) of
             Inl e \<Rightarrow> Inl e
           | Inr arguments \<Rightarrow>
          (case py_get arguments (lit ''input'') (JStr []) of
             Inl e \<Rightarrow> Inl e
           | Inr raw_input \<Rightarrow>
             (let input_value = py_str db raw_input
              in if tool_name = JStr (lit ''to-uppercase'') then
                   JSONResponse_init 200
                     (base_response (text_result (py_upper db input_value)) JNull request_id)
                 else if tool_name = JStr (lit ''to-uppercase-slowly'') then
                   Inr (StreamingResponse
                          (slow_uppercase_stream db payload request_id input_value))
                 else
                   JSONResponse_init 200
                     (base_response JNull
                        (JObj [(lit ''code'', JInt (- 32602)),
                               (lit ''message'', JStr (lit ''Unsupported tool name''))])
                        request_id))))))
        else
          JSONResponse_init 200
            (base_response JNull
               (JObj [(lit ''code'', JInt (- 32601)),
                      (lit ''message'', JStr (lit ''Method not found''))])
               request_id)))"

section \<open>Reading requests and responses\<close>

text \<open>
  Both applications put a dictionary on the wire as a \<^verbatim>\<open>message\<close> event holding its
  \<^verbatim>\<open>json.dumps\<close> text.
\<close>

abbreviation message_frame :: "json \<Rightarrow> pystr" where
  "message_frame ev \<equiv> format_sse (lit ''message'') (json_dumps ev)"

text \<open>The member \<open>key\<close> of an object; \<open>None\<close> when it is absent or the value is no object.\<close>

definition obj_field :: "json \<Rightarrow> pystr \<Rightarrow> json option" where
  "obj_field j key = (case j of JObj kvs \<Rightarrow> map_of kvs key | _ \<Rightarrow> None)"

text \<open>Whether a value is a dictionary, or a string; and a member read with a default.\<close>

definition is_object :: "json \<Rightarrow> bool" where
  "is_object j = (case j of JObj kvs \<Rightarrow> True | _ \<Rightarrow> False)"

definition is_string :: "json \<Rightarrow> bool" where
  "is_string j = (case j of JStr s \<Rightarrow> True | _ \<Rightarrow> False)"

definition member_or :: "json \<Rightarrow> pystr \<Rightarrow> json \<Rightarrow> json" where
  "member_or j key dflt = (case obj_field j key of None \<Rightarrow> dflt | Some v \<Rightarrow> v)"

text \<open>The id a request carries: its \<^verbatim>\<open>id\<close> member, and \<^verbatim>\<open>None\<close> when it has none.\<close>

definition request_id_of :: "json \<Rightarrow> json" where
  "request_id_of payload = (case obj_field payload (lit ''id'') of None \<Rightarrow> JNull | Some v \<Rightarrow> v)"

text \<open>The keys of an object, in order.\<close>

definition obj_keys :: "json \<Rightarrow> pystr list" where
  "obj_keys j = (case j of JObj kvs \<Rightarrow> map fst kvs | _ \<Rightarrow> [])"

text \<open>
  The progress token the caller supplied in \<^verbatim>\<open>params._meta.progressToken\<close>, and \<^verbatim>\<open>None\<close> when
  the caller supplied none.
\<close>

definition supplied_token :: "json \<Rightarrow> json" where
  "supplied_token payload =
     (case obj_field payload (lit ''params'') of
        None \<Rightarrow> JNull
      | Some params \<Rightarrow>
     (case obj_field params (lit ''_meta'') of
        None \<Rightarrow> JNull
      | Some meta \<Rightarrow>
     (case obj_field meta (lit ''progressToken'') of
        None \<Rightarrow> JNull
      | Some token \<Rightarrow> token)))"

text \<open>
  A character database that knows nothing beyond ASCII, to run the model on ASCII
  requests, where the tables are never consulted.
\<close>

definition ascii_db :: unicode_db where
  "ascii_db = \<lparr>to_upper_full = (\<lambda>c. [c]), is_printable = (\<lambda>c. False)\<rparr>"


text \<open>Three requests to run the model on.\<close>

definition list_request :: json where
  "list_request = JObj [(lit ''jsonrpc'', JStr (lit ''2.0'')), (lit ''method'', JStr (lit ''tools/list''))]"

definition slow_request :: json where
  "slow_request =
     JObj [(lit ''jsonrpc'', JStr (lit ''2.0'')),
           (lit ''id'', JInt 7),
           (lit ''method'', JStr (lit ''tools/call'')),
           (lit ''params'',
              JObj [(lit ''name'', JStr (lit ''to-uppercase-slowly'')),
                    (lit ''arguments'', JObj [(lit ''input'', JStr (lit ''abc''))]),
                    (lit ''_meta'', JObj [(lit ''progressToken'', JStr (lit ''t1''))])])]"

definition slow_request_without_token :: json where
  "slow_request_without_token =
     JObj [(lit ''jsonrpc'', JStr (lit ''2.0'')),
           (lit ''id'', JInt 8),
           (lit ''method'', JStr (lit ''tools/call'')),
           (lit ''params'',
              JObj [(lit ''name'', JStr (lit ''to-uppercase-slowly'')),
                    (lit ''arguments'', JObj [(lit ''input'', JStr (lit ''abc''))])])]"

section \<open>Other connections\<close>

text \<open>
  While one \<^verbatim>\<open>GET /sse\<close> connection is being set up the server runs the steps of other
  requests: a \<^verbatim>\<open>POST /message\<close>, another \<^verbatim>\<open>GET /sse\<close>, and the start, the next frame and the
  end of another stream's generator.
\<close>

datatype activity =
    Post message_request
  | Open pystr
  | Start "error + pystr" pystr nat
  | Next nat
  | Close pystr

fun act :: "unicode_db \<Rightarrow> server_state \<Rightarrow> activity \<Rightarrow> server_state" where
  "act db st (Post request) = snd (post_message db st request)"
| "act db st (Open session_id) = snd (sse_stream st session_id)"
| "act db st (Start url_for session_id queue) = event_generator_start st url_for session_id queue"
| "act db st (Next queue) =
     (case event_generator_next st queue of None \<Rightarrow> st | Some (x, st') \<Rightarrow> st')"
| "act db st (Close session_id) = event_generator_close st session_id"


text \<open>Every registered queue has been allocated.\<close>

definition registry_ok :: "server_state \<Rightarrow> bool" where
  "registry_ok st =
     (\<forall>session_id queue. sessions st session_id = Some queue \<longrightarrow> queue < next_queue st)"


section \<open>Basic facts\<close>

lemma lit_eq_iff [simp]: "lit a = lit b \<longleftrightarrow> a = b"
  by (simp add: lit_def inj_of_char)

lemma py_range_1_11 [simp]: "py_range 1 11 = [1..10]"
  by (simp add: py_range_def)

lemma py_get_Inr_obj: "py_get j key dflt = Inr v \<Longrightarrow> \<exists>kvs. j = JObj kvs"
  by (cases j) simp_all

lemma upper_abc: "py_upper db (lit ''abc'') = lit ''ABC''"
  by (simp add: py_upper_def upper_char_def lit_def)

lemma py_upper_Nil [simp]: "py_upper db [] = []"
  by (simp add: py_upper_def)

text \<open>What the constructor of a JSON response accepts.\<close>

lemma lit_no_surrogate [simp]: "\<not> list_ex is_surrogate (lit s)"
proof -
  have "c < 256" if "c \<in> set (lit s)" for c
  proof -
    from that obtain x :: char where "c = of_char x"
      by (auto simp: lit_def)
    then show ?thesis
      by simp
  qed
  then show ?thesis
    by (fastforce simp: list_ex_iff is_surrogate_def)
qed

lemma JSONResponse_init_Inr:
  "JSONResponse_init status_code content = Inr response \<longleftrightarrow>
     \<not> has_nonfinite content \<and> \<not> has_surrogate content
     \<and> response = JSONResponse status_code content"
  by (auto simp: JSONResponse_init_def)

lemma base_response_nonfinite:
  "has_nonfinite (base_response result err rid) \<longleftrightarrow>
     has_nonfinite rid \<or> (if err \<noteq> JNull then has_nonfinite err else has_nonfinite result)"
  by (simp add: base_response_def Let_def)

lemma base_response_surrogate:
  "has_surrogate (base_response result err rid) \<longleftrightarrow>
     has_surrogate rid \<or> (if err \<noteq> JNull then has_surrogate err else has_surrogate result)"
  by (simp add: base_response_def Let_def)

lemma text_result_encodes [simp]:
  "has_nonfinite (text_result upper) = False"
  "has_surrogate (text_result upper) = list_ex is_surrogate upper"
  by (simp_all add: text_result_def)

lemma fixed_results_encode [simp]:
  "has_nonfinite initialize_result = False"
  "has_surrogate initialize_result = False"
  "has_nonfinite TOOLS = False"
  "has_surrogate TOOLS = False"
  by (simp_all add: initialize_result_def TOOLS_def to_uppercase_tool_def
      to_uppercase_slowly_tool_def input_schema_def)

lemma accepted_response [simp]:
  "JSONResponse_init 202 (JObj [(lit ''status'', JStr (lit ''accepted''))]) =
     Inr (JSONResponse 202 (JObj [(lit ''status'', JStr (lit ''accepted''))]))"
  by (simp add: JSONResponse_init_def)


lemma no_surrogate_append [simp]:
  "list_ex is_surrogate (xs @ ys) \<longleftrightarrow> list_ex is_surrogate xs \<or> list_ex is_surrogate ys"
  by (auto simp: list_ex_iff)



lemma hex_fixed_no_surrogate [simp]: "\<not> list_ex is_surrogate (hex_fixed w n)"
  by (induction w arbitrary: n) (auto simp: hex_digit_def is_surrogate_def)

lemma digits_no_surrogate [simp]: "\<not> list_ex is_surrogate (digits n)"
proof (induction n rule: digits.induct)
  case (1 n)
  show ?case
  proof (cases "n < 10")
    case True
    then show ?thesis
      by (subst digits.simps) (simp add: is_surrogate_def)
  next
    case False
    with 1 have "\<not> list_ex is_surrogate (digits (n div 10))"
      by simp
    moreover have "\<not> is_surrogate (48 + n mod 10)"
      by (simp add: is_surrogate_def)
    ultimately show ?thesis
      using False by (subst digits.simps) simp
  qed
qed

lemma str_int_no_surrogate [simp]: "\<not> list_ex is_surrogate (str_int i)"
  by (simp add: str_int_def is_surrogate_def)






text \<open>The shape of every envelope the two dispatchers build.\<close>

lemma build_response_shape:
  assumes "build_response db payload = Inr r"
  shows "\<exists>body.
           r = JObj [(lit ''jsonrpc'', JStr (lit ''2.0'')), (lit ''id'', request_id_of payload),
                     (lit ''result'', body)]
         \<or> r = JObj [(lit ''jsonrpc'', JStr (lit ''2.0'')), (lit ''id'', request_id_of payload),
                     (lit ''error'', body)]"
proof -
  from assms obtain p where p: "payload = JObj p"
    by (cases payload) (simp_all add: build_response_def)
  show ?thesis
    using assms unfolding p
    by (auto simp: build_response_def request_id_of_def obj_field_def method_not_found_def
        split: if_splits sum.splits option.splits)
qed

lemma base_response_shape:
  "\<exists>body.
     base_response result err rid =
       JObj [(lit ''jsonrpc'', JStr (lit ''2.0'')), (lit ''id'', rid), (lit ''result'', body)]
   \<or> base_response result err rid =
       JObj [(lit ''jsonrpc'', JStr (lit ''2.0'')), (lit ''id'', rid), (lit ''error'', body)]"
  by (simp add: base_response_def Let_def)

lemma handle_mcp_json_shape:
  assumes "handle_mcp db payload = Inr (JSONResponse code r)"
  shows "\<exists>res err. r = base_response res err (request_id_of payload)"
proof -
  from assms obtain p where p: "payload = JObj p"
    by (cases payload) (simp_all add: handle_mcp_def)
  show ?thesis
    using assms unfolding p
    by (auto simp: handle_mcp_def request_id_of_def obj_field_def Let_def JSONResponse_init_def
        split: if_splits sum.splits option.splits)
qed

text \<open>What the generator yields when it yields at all.\<close>

lemma slow_uppercase_events_Inr:
  assumes "slow_uppercase_events db payload rid inp = Inr events"
  shows "events = map (event_payload (supplied_token payload)) [1..10]
                  @ [base_response (text_result (py_upper db inp)) JNull rid]"
proof -
  from assms obtain p where p: "payload = JObj p"
    by (cases payload) (simp_all add: slow_uppercase_events_def)
  from assms obtain ps where ps: "py_get payload (lit ''params'') (JObj []) = Inr (JObj ps)"
    unfolding p
    by (auto simp: slow_uppercase_events_def split: sum.splits dest: py_get_Inr_obj)
  from assms ps obtain m where m: "py_get (JObj ps) (lit ''_meta'') (JObj []) = Inr (JObj m)"
    by (auto simp: slow_uppercase_events_def split: sum.splits dest: py_get_Inr_obj)
  have tok: "py_get (JObj m) (lit ''progressToken'') JNull = Inr (supplied_token payload)"
    using ps m unfolding p
    by (auto simp: supplied_token_def obj_field_def split: option.splits)
  show ?thesis
    using assms ps m tok by (simp add: slow_uppercase_events_def)
qed

lemma handle_mcp_stream_shape:
  assumes "handle_mcp db payload = Inr (StreamingResponse gen)"
  shows "\<exists>inp. gen = slow_uppercase_stream db payload (request_id_of payload) inp"
proof -
  from assms obtain p where p: "payload = JObj p"
    by (cases payload) (simp_all add: handle_mcp_def)
  show ?thesis
    using assms unfolding p
    by (auto simp: handle_mcp_def request_id_of_def obj_field_def Let_def JSONResponse_init_def
        split: if_splits sum.splits option.splits)
qed

lemma handle_mcp_frames:
  assumes "handle_mcp db payload = Inr (StreamingResponse (Inr frames))"
  shows "\<exists>inp. frames = map message_frame
            (map (event_payload (supplied_token payload)) [1..10]
             @ [base_response (text_result (py_upper db inp)) JNull (request_id_of payload)])"
proof -
  from handle_mcp_stream_shape [OF assms] obtain inp
    where "slow_uppercase_stream db payload (request_id_of payload) inp = Inr frames"
    by auto
  then obtain events
    where ev: "slow_uppercase_events db payload (request_id_of payload) inp = Inr events"
      and fr: "frames = map message_frame events"
    by (auto simp: slow_uppercase_stream_def split: sum.splits)
  from slow_uppercase_events_Inr [OF ev] fr show ?thesis
    by blast
qed

lemma closed_session_absent: "sessions (event_generator_close st session_id) session_id = None"
  by (simp add: event_generator_close_def SessionRegistry_pop_def)

text \<open>Foreign steps leave a connection's queue alone.\<close>

lemma registry_ok_initial: "registry_ok initial_state"
  by (simp add: registry_ok_def initial_state_def)

lemma post_message_frame:
  "sessions (snd (post_message db st request)) = sessions st"
  "next_queue (snd (post_message db st request)) = next_queue st"
  by (auto simp: post_message_def queue_put_def split: option.splits sum.splits error.splits)

lemma registry_ok_act: "registry_ok st \<Longrightarrow> registry_ok (act db st a)"
proof (cases a)
  case (Post request)
  then show "registry_ok st \<Longrightarrow> registry_ok (act db st a)"
    by (simp add: registry_ok_def post_message_frame)
next
  case (Open other_id)
  then show "registry_ok st \<Longrightarrow> registry_ok (act db st a)"
    by (auto simp: registry_ok_def sse_stream_def SessionRegistry_create_def Let_def less_Suc_eq)
next
  case (Start url_for other_id other_queue)
  then show "registry_ok st \<Longrightarrow> registry_ok (act db st a)"
    by (simp add: registry_ok_def event_generator_start_def queue_put_def)
next
  case (Next other_queue)
  then show "registry_ok st \<Longrightarrow> registry_ok (act db st a)"
    by (auto simp: registry_ok_def event_generator_next_def queue_get_def split: list.splits)
next
  case (Close other_id)
  then show "registry_ok st \<Longrightarrow> registry_ok (act db st a)"
    by (auto simp: registry_ok_def event_generator_close_def SessionRegistry_pop_def)
qed

lemma registry_ok_reachable: "registry_ok (foldl (act db) initial_state acts)"
proof -
  have "registry_ok st \<Longrightarrow> registry_ok (foldl (act db) st acts)" for st
    by (induction acts arbitrary: st) (simp_all add: registry_ok_act)
  from this [OF registry_ok_initial] show ?thesis .
qed





section \<open>When the dispatchers raise\<close>

text \<open>
  Neither application checks the shape of a request. A dispatcher raises \<^verbatim>\<open>AttributeError\<close>
  exactly when it calls \<^verbatim>\<open>get\<close> on a value that is no dictionary, or \<^verbatim>\<open>upper\<close> on one that
  is no string.
\<close>

lemma py_get_member_or:
  "py_get j key dflt = (if is_object j then Inr (member_or j key dflt) else Inl AttributeError)"
  by (cases j) (simp_all add: is_object_def member_or_def obj_field_def)

lemma perform_to_uppercase_raises:
  "perform_to_uppercase db v =
     (if is_string v then Inr (py_upper db (case v of JStr s \<Rightarrow> s | _ \<Rightarrow> []))
      else Inl AttributeError)"
  by (cases v) (simp_all add: is_string_def)

lemma build_response_raises_iff:
  "(\<exists>e. build_response db payload = Inl e) \<longleftrightarrow>
     \<not> is_object payload
   \<or> member_or payload (lit ''method'') JNull = JStr (lit ''tools/call'')
     \<and> (\<not> is_object (member_or payload (lit ''params'') (JObj []))
        \<or> member_or (member_or payload (lit ''params'') (JObj [])) (lit ''name'') JNull
             = JStr (lit ''to-uppercase'')
          \<and> (\<not> is_object (member_or (member_or payload (lit ''params'') (JObj []))
                               (lit ''arguments'') (JObj []))
             \<or> \<not> is_string (member_or (member_or (member_or payload (lit ''params'') (JObj []))
                                                (lit ''arguments'') (JObj []))
                                     (lit ''input'') (JStr []))))"
  by (simp add: build_response_def py_get_member_or perform_to_uppercase_raises)

lemma build_response_raises_AttributeError:
  "build_response db payload = Inl e \<Longrightarrow> e = AttributeError"
  by (simp add: build_response_def py_get_member_or perform_to_uppercase_raises
      split: if_splits)

lemma handle_mcp_AttributeError_iff:
  "handle_mcp db payload = Inl AttributeError \<longleftrightarrow>
     \<not> is_object payload
   \<or> member_or payload (lit ''method'') JNull = JStr (lit ''tools/call'')
     \<and> (\<not> is_object (member_or payload (lit ''params'') (JObj []))
        \<or> \<not> is_object (member_or (member_or payload (lit ''params'') (JObj []))
                             (lit ''arguments'') (JObj [])))"
  by (simp add: handle_mcp_def py_get_member_or Let_def JSONResponse_init_def)

lemma slow_uppercase_stream_raises_iff:
  "(\<exists>e. slow_uppercase_stream db payload request_id input_value = Inl e) \<longleftrightarrow>
     \<not> is_object payload
   \<or> \<not> is_object (member_or payload (lit ''params'') (JObj []))
   \<or> \<not> is_object (member_or (member_or payload (lit ''params'') (JObj []))
                        (lit ''_meta'') (JObj []))"
  by (simp add: slow_uppercase_stream_def slow_uppercase_events_def py_get_member_or)

section \<open>The progressive call (Streamable)\<close>

text \<open>
  Claim C1, as amended. A \<^verbatim>\<open>tools/call\<close> of \<^verbatim>\<open>to-uppercase-slowly\<close> whose \<^verbatim>\<open>params.arguments\<close> and
  \<^verbatim>\<open>params._meta\<close> are each an object or absent is answered by a stream of exactly eleven
  frames: ten progress frames with \<^verbatim>\<open>progress\<close> running from 1 to 10 in this order, each with
  \<^verbatim>\<open>total\<close> 10 and the message \<^verbatim>\<open>Server progress {progress*10}%\<close>, and then, last, the terminal
  frame whose \<^verbatim>\<open>result.content[0].text\<close> is the uppercase of the input (of its \<^verbatim>\<open>str\<close> rendering
  when it is no string). \<open>input\<close>, \<open>token\<close> and \<open>request_id\<close> name what the three lookups
  return, with their defaults.
\<close>

theorem slow_call_stream:
  assumes "map_of p (lit ''method'') = Some (JStr (lit ''tools/call''))"
    and "map_of p (lit ''params'') = Some (JObj ps)"
    and "map_of ps (lit ''name'') = Some (JStr (lit ''to-uppercase-slowly''))"
    and "py_get (JObj ps) (lit ''arguments'') (JObj []) = Inr (JObj args)"
    and "py_get (JObj ps) (lit ''_meta'') (JObj []) = Inr (JObj meta)"
    and "py_get (JObj args) (lit ''input'') (JStr []) = Inr input"
    and "py_get (JObj meta) (lit ''progressToken'') JNull = Inr token"
    and "py_get (JObj p) (lit ''id'') JNull = Inr request_id"
  shows "handle_mcp db (JObj p) =
     Inr (StreamingResponse (Inr (
       map (\<lambda>i. message_frame
              (JObj [(lit ''jsonrpc'', JStr (lit ''2.0'')),
                     (lit ''method'', JStr (lit ''notifications/progress'')),
                     (lit ''params'',
                        JObj [(lit ''progress'', JInt i),
                              (lit ''total'', JInt 10),
                              (lit ''progressToken'', token),
                              (lit ''message'',
                                 JStr (lit ''Server progress '' @ str_int (i * 10) @ lit ''%''))])]))
           [1..10]
       @ [message_frame
            (JObj [(lit ''jsonrpc'', JStr (lit ''2.0'')),
                   (lit ''id'', request_id),
                   (lit ''result'',
                      JObj [(lit ''content'',
                               JArr [JObj [(lit ''type'', JStr (lit ''text'')),
                                           (lit ''text'', JStr (py_upper db (py_str db input)))]]),
                            (lit ''isError'', JBool False)])])])))"
proof -
  have pct: "\<And>i::int. i * 100 div 10 = i * 10"
    by simp
  have ev: "slow_uppercase_events db (JObj p) request_id (py_str db input) =
      Inr (map (event_payload token) [1..10]
           @ [base_response (text_result (py_upper db (py_str db input))) JNull request_id])"
    using assms by (simp add: slow_uppercase_events_def)
  have "handle_mcp db (JObj p) =
      Inr (StreamingResponse (slow_uppercase_stream db (JObj p) request_id (py_str db input)))"
    using assms by (simp add: handle_mcp_def)
  then show ?thesis
    by (simp add: slow_uppercase_stream_def ev event_payload_def pct base_response_def
        text_result_def)
qed

text \<open>
  The claim as written fails: with \<^verbatim>\<open>"_meta": null\<close> the handler still answers with a
  stream, and the generator raises at its first step, before any frame.
\<close>

theorem slow_call_meta_null_counterexample:
  "handle_mcp ascii_db
     (JObj [(lit ''method'', JStr (lit ''tools/call'')),
            (lit ''params'',
               JObj [(lit ''name'', JStr (lit ''to-uppercase-slowly'')),
                     (lit ''_meta'', JNull)])])
   = Inr (StreamingResponse (Inl AttributeError))"
  by (simp add: handle_mcp_def slow_uppercase_stream_def slow_uppercase_events_def)

theorem slow_call_stream_witness:
  "handle_mcp ascii_db
     (JObj [(lit ''jsonrpc'', JStr (lit ''2.0'')),
            (lit ''id'', JInt 7),
            (lit ''method'', JStr (lit ''tools/call'')),
            (lit ''params'',
               JObj [(lit ''name'', JStr (lit ''to-uppercase-slowly'')),
                     (lit ''arguments'', JObj [(lit ''input'', JStr (lit ''abc''))]),
                     (lit ''_meta'', JObj [(lit ''progressToken'', JStr (lit ''t1''))])])])
   = Inr (StreamingResponse (Inr (
       map (\<lambda>i. message_frame
              (JObj [(lit ''jsonrpc'', JStr (lit ''2.0'')),
                     (lit ''method'', JStr (lit ''notifications/progress'')),
                     (lit ''params'',
                        JObj [(lit ''progress'', JInt i),
                              (lit ''total'', JInt 10),
                              (lit ''progressToken'', JStr (lit ''t1'')),
                              (lit ''message'',
                                 JStr (lit ''Server progress '' @ str_int (i * 10) @ lit ''%''))])]))
           [1..10]
       @ [message_frame
            (JObj [(lit ''jsonrpc'', JStr (lit ''2.0'')),
                   (lit ''id'', JInt 7),
                   (lit ''result'',
                      JObj [(lit ''content'',
                               JArr [JObj [(lit ''type'', JStr (lit ''text'')),
                                           (lit ''text'', JStr (lit ''ABC''))]]),
                            (lit ''isError'', JBool False)])])])))"
proof -
  have up: "py_upper ascii_db (py_str ascii_db (JStr (lit ''abc''))) = lit ''ABC''"
    by (simp add: py_str_def upper_abc)
  show ?thesis
    using slow_call_stream [of
        "[(lit ''jsonrpc'', JStr (lit ''2.0'')),
          (lit ''id'', JInt 7),
          (lit ''method'', JStr (lit ''tools/call'')),
          (lit ''params'',
             JObj [(lit ''name'', JStr (lit ''to-uppercase-slowly'')),
                   (lit ''arguments'', JObj [(lit ''input'', JStr (lit ''abc''))]),
                   (lit ''_meta'', JObj [(lit ''progressToken'', JStr (lit ''t1''))])])]"
        "[(lit ''name'', JStr (lit ''to-uppercase-slowly'')),
          (lit ''arguments'', JObj [(lit ''input'', JStr (lit ''abc''))]),
          (lit ''_meta'', JObj [(lit ''progressToken'', JStr (lit ''t1''))])]"
        "[(lit ''input'', JStr (lit ''abc''))]"
        "[(lit ''progressToken'', JStr (lit ''t1''))]"
        "JStr (lit ''abc'')" "JStr (lit ''t1'')" "JInt 7" ascii_db]
    by (simp add: up)
qed

section \<open>The synchronous call\<close>

text \<open>
  Claim C2, as amended. A \<^verbatim>\<open>tools/call\<close> of \<^verbatim>\<open>to-uppercase\<close> whose \<^verbatim>\<open>params.arguments\<close> is an
  object or absent and whose \<^verbatim>\<open>arguments.input\<close> is a string or absent is answered with
  \<^verbatim>\<open>content = [{"type": "text", "text": uppercase(input)}]\<close> and \<^verbatim>\<open>isError = false\<close>, under the id
  of the request: by the Session-Registry dispatcher always, and by the Streamable handler
  when the JSON response can be encoded, that is when the id holds no float that is no
  number and neither the id nor the uppercased text holds a surrogate; otherwise the
  constructor of the response raises. \<open>s\<close> is the input read with its default, the empty
  string: the input \<^verbatim>\<open>abc\<close> gives the text \<^verbatim>\<open>ABC\<close>, and a missing input gives the empty text
  and no failure.
\<close>

theorem uppercase_call_result:
  assumes "map_of p (lit ''method'') = Some (JStr (lit ''tools/call''))"
    and "map_of p (lit ''params'') = Some (JObj ps)"
    and "map_of ps (lit ''name'') = Some (JStr (lit ''to-uppercase''))"
    and "py_get (JObj ps) (lit ''arguments'') (JObj []) = Inr (JObj args)"
    and "py_get (JObj args) (lit ''input'') (JStr []) = Inr (JStr s)"
    and "py_get (JObj p) (lit ''id'') JNull = Inr request_id"
  shows "build_response db (JObj p) =
           Inr (JObj [(lit ''jsonrpc'', JStr (lit ''2.0'')),
                      (lit ''id'', request_id),
                      (lit ''result'',
                         JObj [(lit ''content'',
                                  JArr [JObj [(lit ''type'', JStr (lit ''text'')),
                                              (lit ''text'', JStr (py_upper db s))]]),
                               (lit ''isError'', JBool False)])])
       \<and> handle_mcp db (JObj p) =
           (if has_nonfinite request_id then Inl ValueError
            else if has_surrogate request_id \<or> list_ex is_surrogate (py_upper db s)
            then Inl UnicodeEncodeError
            else Inr (JSONResponse 200
                 (JObj [(lit ''jsonrpc'', JStr (lit ''2.0'')),
                        (lit ''id'', request_id),
                        (lit ''result'',
                           JObj [(lit ''content'',
                                    JArr [JObj [(lit ''type'', JStr (lit ''text'')),
                                                (lit ''text'', JStr (py_upper db s))]]),
                                 (lit ''isError'', JBool False)])])))
       \<and> (s = lit ''abc'' \<longrightarrow> py_upper db s = lit ''ABC'')
       \<and> (map_of args (lit ''input'') = None \<longrightarrow> s = [] \<and> py_upper db s = [])"
proof -
  have sse: "build_response db (JObj p) =
      Inr (JObj [(lit ''jsonrpc'', JStr (lit ''2.0'')), (lit ''id'', request_id),
                 (lit ''result'', text_result (py_upper db s))])"
    using assms by (simp add: build_response_def)
  have streamable: "handle_mcp db (JObj p) =
      JSONResponse_init 200 (base_response (text_result (py_upper db s)) JNull request_id)"
    using assms by (simp add: handle_mcp_def py_str_def)
  have dflt: "map_of args (lit ''input'') = None \<longrightarrow> s = [] \<and> py_upper db s = []"
    using assms(5) by auto
  from sse streamable dflt show ?thesis
    by (simp add: JSONResponse_init_def base_response_nonfinite base_response_surrogate
        text_result_def base_response_def upper_abc)
qed

text \<open>
  The claim as written fails. On the Session-Registry transport the dispatcher hands the
  input to \<^verbatim>\<open>perform_to_uppercase\<close> as it is, and a number has no \<^verbatim>\<open>upper\<close>. On the Streamable
  transport a string input that holds a surrogate (the body \<^verbatim>\<open>"\ud800"\<close>) is uppercased, and
  the constructor of the JSON response cannot encode the text.
\<close>

theorem uppercase_call_counterexample:
  "build_response ascii_db
     (JObj [(lit ''method'', JStr (lit ''tools/call'')),
            (lit ''params'',
               JObj [(lit ''name'', JStr (lit ''to-uppercase'')),
                     (lit ''arguments'', JObj [(lit ''input'', JInt 5)])])])
   = Inl AttributeError
   \<and> handle_mcp ascii_db
     (JObj [(lit ''method'', JStr (lit ''tools/call'')),
            (lit ''params'',
               JObj [(lit ''name'', JStr (lit ''to-uppercase'')),
                     (lit ''arguments'', JObj [(lit ''input'', JStr [55296])])])])
   = Inl UnicodeEncodeError"
  by (simp add: build_response_def handle_mcp_def py_str_def py_upper_def upper_char_def
      ascii_db_def JSONResponse_init_def base_response_nonfinite base_response_surrogate
      is_surrogate_def)

theorem uppercase_call_result_witness:
  "build_response ascii_db
     (JObj [(lit ''id'', JInt 1),
            (lit ''method'', JStr (lit ''tools/call'')),
            (lit ''params'',
               JObj [(lit ''name'', JStr (lit ''to-uppercase'')),
                     (lit ''arguments'', JObj [(lit ''input'', JStr (lit ''abc''))])])])
   = Inr (JObj [(lit ''jsonrpc'', JStr (lit ''2.0'')),
                (lit ''id'', JInt 1),
                (lit ''result'',
                   JObj [(lit ''content'',
                            JArr [JObj [(lit ''type'', JStr (lit ''text'')),
                                        (lit ''text'', JStr (lit ''ABC''))]]),
                         (lit ''isError'', JBool False)])])
   \<and> handle_mcp ascii_db
     (JObj [(lit ''id'', JInt 1),
            (lit ''method'', JStr (lit ''tools/call'')),
            (lit ''params'',
               JObj [(lit ''name'', JStr (lit ''to-uppercase'')),
                     (lit ''arguments'', JObj [(lit ''input'', JStr (lit ''abc''))])])])
   = Inr (JSONResponse 200
           (JObj [(lit ''jsonrpc'', JStr (lit ''2.0'')),
                  (lit ''id'', JInt 1),
                  (lit ''result'',
                     JObj [(lit ''content'',
                              JArr [JObj [(lit ''type'', JStr (lit ''text'')),
                                          (lit ''text'', JStr (lit ''ABC''))]]),
                           (lit ''isError'', JBool False)])]))"
  using uppercase_call_result [of
      "[(lit ''id'', JInt 1),
        (lit ''method'', JStr (lit ''tools/call'')),
        (lit ''params'',
           JObj [(lit ''name'', JStr (lit ''to-uppercase'')),
                 (lit ''arguments'', JObj [(lit ''input'', JStr (lit ''abc''))])])]"
      "[(lit ''name'', JStr (lit ''to-uppercase'')),
        (lit ''arguments'', JObj [(lit ''input'', JStr (lit ''abc''))])]"
      "[(lit ''input'', JStr (lit ''abc''))]"
      "lit ''abc''" "JInt 1" ascii_db]
  by simp




text \<open>
  Claim C4, as amended. For a \<^verbatim>\<open>tools/call\<close> whose \<^verbatim>\<open>params\<close> is an object or absent and whose
  \<^verbatim>\<open>params.name\<close> (\<open>tool_name\<close>, \<^verbatim>\<open>None\<close> when absent) is not a registered tool: the
  Session-Registry dispatcher falls through to the generic error \<^verbatim>\<open>-32601 Method not found\<close>;
  the Streamable handler returns the error \<^verbatim>\<open>-32602 Unsupported tool name\<close> provided
  \<^verbatim>\<open>params.arguments\<close> is an object or absent and the id of the request can be encoded in the
  JSON response (it holds no float that is no number and no surrogate). In these cases
  neither raises; with an id that cannot be encoded the constructor of the response does.
\<close>

theorem unknown_tool_error:
  assumes "map_of p (lit ''method'') = Some (JStr (lit ''tools/call''))"
    and "py_get (JObj p) (lit ''params'') (JObj []) = Inr (JObj ps)"
    and "py_get (JObj ps) (lit ''name'') JNull = Inr tool_name"
    and "py_get (JObj p) (lit ''id'') JNull = Inr request_id"
  shows "(tool_name \<noteq> JStr (lit ''to-uppercase'') \<longrightarrow>
           build_response db (JObj p) =
             Inr (JObj [(lit ''jsonrpc'', JStr (lit ''2.0'')),
                        (lit ''id'', request_id),
                        (lit ''error'',
                           JObj [(lit ''code'', JInt (- 32601)),
                                 (lit ''message'', JStr (lit ''Method not found''))])]))
       \<and> (tool_name \<noteq> JStr (lit ''to-uppercase'')
            \<and> tool_name \<noteq> JStr (lit ''to-uppercase-slowly'')
            \<and> py_get (JObj ps) (lit ''arguments'') (JObj []) = Inr (JObj args) \<longrightarrow>
           handle_mcp db (JObj p) =
             (if has_nonfinite request_id then Inl ValueError
              else if has_surrogate request_id then Inl UnicodeEncodeError
              else Inr (JSONResponse 200
                   (JObj [(lit ''jsonrpc'', JStr (lit ''2.0'')),
                          (lit ''id'', request_id),
                          (lit ''error'',
                             JObj [(lit ''code'', JInt (- 32602)),
                                   (lit ''message'', JStr (lit ''Unsupported tool name''))])]))))"
proof (intro conjI impI)
  assume "tool_name \<noteq> JStr (lit ''to-uppercase'')"
  with assms show "build_response db (JObj p) =
             Inr (JObj [(lit ''jsonrpc'', JStr (lit ''2.0'')),
                        (lit ''id'', request_id),
                        (lit ''error'',
                           JObj [(lit ''code'', JInt (- 32601)),
                                 (lit ''message'', JStr (lit ''Method not found''))])])"
    by (auto simp: build_response_def method_not_found_def split: option.splits)
next
  assume unknown: "tool_name \<noteq> JStr (lit ''to-uppercase'')
            \<and> tool_name \<noteq> JStr (lit ''to-uppercase-slowly'')
            \<and> py_get (JObj ps) (lit ''arguments'') (JObj []) = Inr (JObj args)"
  have "handle_mcp db (JObj p) =
      JSONResponse_init 200
        (base_response JNull
           (JObj [(lit ''code'', JInt (- 32602)),
                  (lit ''message'', JStr (lit ''Unsupported tool name''))])
           request_id)"
    using assms unknown by (auto simp: handle_mcp_def Let_def split: option.splits)
  then show "handle_mcp db (JObj p) =
             (if has_nonfinite request_id then Inl ValueError
              else if has_surrogate request_id then Inl UnicodeEncodeError
              else Inr (JSONResponse 200
                   (JObj [(lit ''jsonrpc'', JStr (lit ''2.0'')),
                          (lit ''id'', request_id),
                          (lit ''error'',
                             JObj [(lit ''code'', JInt (- 32602)),
                                   (lit ''message'', JStr (lit ''Unsupported tool name''))])])))"
    by (simp add: JSONResponse_init_def base_response_nonfinite base_response_surrogate
        base_response_def)
qed

text \<open>
  The claim as written fails on the Streamable transport. The handler reads
  \<^verbatim>\<open>arguments.get("input", "")\<close> before it looks at the tool name, so an unknown tool called
  with \<^verbatim>\<open>"arguments": null\<close> raises; and an unknown tool called under the id \<^verbatim>\<open>NaN\<close> raises in
  the constructor of the JSON response that should carry the error.
\<close>

theorem unknown_tool_counterexample:
  "handle_mcp ascii_db
     (JObj [(lit ''method'', JStr (lit ''tools/call'')),
            (lit ''params'',
               JObj [(lit ''name'', JStr (lit ''no-such-tool'')),
                     (lit ''arguments'', JNull)])])
   = Inl AttributeError
   \<and> handle_mcp ascii_db
     (JObj [(lit ''id'', JFloat ''nan''),
            (lit ''method'', JStr (lit ''tools/call'')),
            (lit ''params'', JObj [(lit ''name'', JStr (lit ''no-such-tool''))])])
   = Inl ValueError"
  by (simp add: handle_mcp_def JSONResponse_init_def base_response_nonfinite)

theorem unknown_tool_error_witness:
  "build_response ascii_db
     (JObj [(lit ''id'', JInt 3),
            (lit ''method'', JStr (lit ''tools/call'')),
            (lit ''params'', JObj [(lit ''name'', JStr (lit ''no-such-tool''))])])
   = Inr (JObj [(lit ''jsonrpc'', JStr (lit ''2.0'')),
                (lit ''id'', JInt 3),
                (lit ''error'',
                   JObj [(lit ''code'', JInt (- 32601)),
                         (lit ''message'', JStr (lit ''Method not found''))])])
   \<and> handle_mcp ascii_db
     (JObj [(lit ''id'', JInt 3),
            (lit ''method'', JStr (lit ''tools/call'')),
            (lit ''params'', JObj [(lit ''name'', JStr (lit ''no-such-tool''))])])
   = Inr (JSONResponse 200
           (JObj [(lit ''jsonrpc'', JStr (lit ''2.0'')),
                  (lit ''id'', JInt 3),
                  (lit ''error'',
                     JObj [(lit ''code'', JInt (- 32602)),
                           (lit ''message'', JStr (lit ''Unsupported tool name''))])]))"
  using unknown_tool_error [of
      "[(lit ''id'', JInt 3),
        (lit ''method'', JStr (lit ''tools/call'')),
        (lit ''params'', JObj [(lit ''name'', JStr (lit ''no-such-tool''))])]"
      "[(lit ''name'', JStr (lit ''no-such-tool''))]"
      "JStr (lit ''no-such-tool'')" "JInt 3" ascii_db "[]"]
  by simp

section \<open>Sessions\<close>

text \<open>
  Claim C3. A \<^verbatim>\<open>POST /message\<close> whose \<^verbatim>\<open>sessionid\<close> names a session the registry does not
  hold, because it was never created or has been removed, is refused with status 404, and
  the state is what it was: the registry and every queue are unchanged. An empty
  \<^verbatim>\<open>sessionid\<close> counts as a missing one (status 400), so a session id is a non-empty string.
\<close>

theorem unknown_session_404:
  assumes "query_sessionid request = Some session_id"
    and "session_id \<noteq> []"
    and "sessions st session_id = None"
  shows "post_message db st request =
           (Inl (HTTPException 404 (lit ''session not found; establish the SSE stream first'')), st)"
  using assms by (simp add: post_message_def SessionRegistry_get_def)

theorem unknown_session_404_witness:
  "post_message ascii_db
     (event_generator_close (snd (sse_stream initial_state (lit ''5f0c''))) (lit ''5f0c''))
     \<lparr>query_sessionid = Some (lit ''5f0c''),
      body_json = Inr (JObj [(lit ''method'', JStr (lit ''initialize''))])\<rparr>
   = (Inl (HTTPException 404 (lit ''session not found; establish the SSE stream first'')),
      event_generator_close (snd (sse_stream initial_state (lit ''5f0c''))) (lit ''5f0c''))"
  using unknown_session_404 [of
      "\<lparr>query_sessionid = Some (lit ''5f0c''),
        body_json = Inr (JObj [(lit ''method'', JStr (lit ''initialize''))])\<rparr>"
      "lit ''5f0c''"
      "event_generator_close (snd (sse_stream initial_state (lit ''5f0c''))) (lit ''5f0c'')"
      ascii_db]
  by (simp add: closed_session_absent lit_def)

section \<open>Envelopes\<close>

text \<open>
  Claim C5. Whenever a dispatcher produces a JSON-RPC response, its \<^verbatim>\<open>id\<close> field is the id of
  the request that triggered it, and \<^verbatim>\<open>null\<close> when the request has no id or the id \<^verbatim>\<open>null\<close>:
  for the response \<^verbatim>\<open>build_response\<close> returns (Session-Registry), for the body of the JSON
  response of \<^verbatim>\<open>handle_mcp\<close> (Streamable), and for the terminal frame of its stream, which is
  the last frame.
\<close>

theorem response_id_round_trip:
  "(build_response db payload = Inr r \<longrightarrow> obj_field r (lit ''id'') = Some (request_id_of payload))
   \<and> (handle_mcp db payload = Inr (JSONResponse code r') \<longrightarrow>
        obj_field r' (lit ''id'') = Some (request_id_of payload))
   \<and> (handle_mcp db payload = Inr (StreamingResponse (Inr frames)) \<longrightarrow>
        (\<exists>terminal. frames \<noteq> [] \<and> last frames = message_frame terminal
           \<and> obj_field terminal (lit ''id'') = Some (request_id_of payload)))"
proof (intro conjI impI)
  assume "build_response db payload = Inr r"
  from build_response_shape [OF this] show "obj_field r (lit ''id'') = Some (request_id_of payload)"
    by (auto simp: obj_field_def)
next
  assume "handle_mcp db payload = Inr (JSONResponse code r')"
  from handle_mcp_json_shape [OF this] obtain res err
    where "r' = base_response res err (request_id_of payload)"
    by blast
  with base_response_shape [of res err "request_id_of payload"]
  show "obj_field r' (lit ''id'') = Some (request_id_of payload)"
    by (auto simp: obj_field_def)
next
  assume "handle_mcp db payload = Inr (StreamingResponse (Inr frames))"
  from handle_mcp_frames [OF this] obtain inp
    where fr: "frames = map message_frame
            (map (event_payload (supplied_token payload)) [1..10]
             @ [base_response (text_result (py_upper db inp)) JNull (request_id_of payload)])"
    by blast
  let ?t = "base_response (text_result (py_upper db inp)) JNull (request_id_of payload)"
  have "frames \<noteq> []" and "last frames = message_frame ?t"
    using fr by simp_all
  moreover have "obj_field ?t (lit ''id'') = Some (request_id_of payload)"
    by (simp add: base_response_def obj_field_def)
  ultimately
  show "\<exists>terminal. frames \<noteq> [] \<and> last frames = message_frame terminal
           \<and> obj_field terminal (lit ''id'') = Some (request_id_of payload)"
    by blast
qed

theorem response_id_round_trip_witness:
  "build_response ascii_db list_request =
     Inr (JObj [(lit ''jsonrpc'', JStr (lit ''2.0'')), (lit ''id'', JNull),
                (lit ''result'', JObj [(lit ''tools'', JArr [to_uppercase_tool])])])
   \<and> obj_field (JObj [(lit ''jsonrpc'', JStr (lit ''2.0'')), (lit ''id'', JNull),
                  (lit ''result'', JObj [(lit ''tools'', JArr [to_uppercase_tool])])])
        (lit ''id'') = Some JNull
   \<and> handle_mcp ascii_db list_request =
       Inr (JSONResponse 200 (base_response (JObj [(lit ''tools'', TOOLS)]) JNull JNull))
   \<and> obj_field (base_response (JObj [(lit ''tools'', TOOLS)]) JNull JNull) (lit ''id'') = Some JNull
   \<and> handle_mcp ascii_db slow_request =
       Inr (StreamingResponse (Inr (map message_frame
         (map (event_payload (JStr (lit ''t1''))) [1..10]
          @ [base_response (text_result (lit ''ABC'')) JNull (JInt 7)]))))
   \<and> (\<exists>terminal.
         last (map message_frame
           (map (event_payload (JStr (lit ''t1''))) [1..10]
            @ [base_response (text_result (lit ''ABC'')) JNull (JInt 7)])) = message_frame terminal
         \<and> obj_field terminal (lit ''id'') = Some (JInt 7))"
proof -
  have a: "build_response ascii_db list_request =
     Inr (JObj [(lit ''jsonrpc'', JStr (lit ''2.0'')), (lit ''id'', JNull),
                (lit ''result'', JObj [(lit ''tools'', JArr [to_uppercase_tool])])])"
    by (simp add: build_response_def list_request_def)
  have b: "handle_mcp ascii_db list_request =
       Inr (JSONResponse 200 (base_response (JObj [(lit ''tools'', TOOLS)]) JNull JNull))"
    by (simp add: handle_mcp_def list_request_def JSONResponse_init_def
        base_response_nonfinite base_response_surrogate)
  have c: "handle_mcp ascii_db slow_request =
       Inr (StreamingResponse (Inr (map message_frame
         (map (event_payload (JStr (lit ''t1''))) [1..10]
          @ [base_response (text_result (lit ''ABC'')) JNull (JInt 7)]))))"
    by (simp add: handle_mcp_def slow_request_def slow_uppercase_stream_def
        slow_uppercase_events_def py_str_def upper_abc)
  have ids: "request_id_of list_request = JNull" "request_id_of slow_request = JInt 7"
    by (simp_all add: request_id_of_def obj_field_def list_request_def slow_request_def)
  from a b
    response_id_round_trip [of ascii_db list_request
      "JObj [(lit ''jsonrpc'', JStr (lit ''2.0'')), (lit ''id'', JNull),
             (lit ''result'', JObj [(lit ''tools'', JArr [to_uppercase_tool])])]"
      200 "base_response (JObj [(lit ''tools'', TOOLS)]) JNull JNull" "[]"]
  have ab: "obj_field (JObj [(lit ''jsonrpc'', JStr (lit ''2.0'')), (lit ''id'', JNull),
                  (lit ''result'', JObj [(lit ''tools'', JArr [to_uppercase_tool])])])
        (lit ''id'') = Some JNull"
    "obj_field (base_response (JObj [(lit ''tools'', TOOLS)]) JNull JNull) (lit ''id'') = Some JNull"
    by (simp_all add: ids)
  from c
    response_id_round_trip [of ascii_db slow_request JNull 200 JNull
      "map message_frame
         (map (event_payload (JStr (lit ''t1''))) [1..10]
          @ [base_response (text_result (lit ''ABC'')) JNull (JInt 7)])"]
  have "\<exists>terminal.
         last (map message_frame
           (map (event_payload (JStr (lit ''t1''))) [1..10]
            @ [base_response (text_result (lit ''ABC'')) JNull (JInt 7)])) = message_frame terminal
         \<and> obj_field terminal (lit ''id'') = Some (JInt 7)"
    by (simp add: ids)
  with a b c ab show ?thesis
    by blast
qed

text \<open>
  Claim C6. Every response envelope either dispatcher produces, for any request body
  whatever, has exactly the three keys \<^verbatim>\<open>jsonrpc\<close>, \<^verbatim>\<open>id\<close> and one of \<^verbatim>\<open>result\<close> and \<^verbatim>\<open>error\<close>:
  never both and never neither. The terminal frame of a stream carries a \<^verbatim>\<open>result\<close>.
\<close>

theorem envelope_result_xor_error:
  "(build_response db payload = Inr r \<longrightarrow>
        obj_keys r = [lit ''jsonrpc'', lit ''id'', lit ''result'']
      \<or> obj_keys r = [lit ''jsonrpc'', lit ''id'', lit ''error''])
   \<and> (handle_mcp db payload = Inr (JSONResponse code r') \<longrightarrow>
        obj_keys r' = [lit ''jsonrpc'', lit ''id'', lit ''result'']
      \<or> obj_keys r' = [lit ''jsonrpc'', lit ''id'', lit ''error''])
   \<and> (handle_mcp db payload = Inr (StreamingResponse (Inr frames)) \<longrightarrow>
        (\<exists>terminal. frames \<noteq> [] \<and> last frames = message_frame terminal
           \<and> obj_keys terminal = [lit ''jsonrpc'', lit ''id'', lit ''result'']))"
proof (intro conjI impI)
  assume "build_response db payload = Inr r"
  from build_response_shape [OF this]
  show "obj_keys r = [lit ''jsonrpc'', lit ''id'', lit ''result'']
      \<or> obj_keys r = [lit ''jsonrpc'', lit ''id'', lit ''error'']"
    by (auto simp: obj_keys_def)
next
  assume "handle_mcp db payload = Inr (JSONResponse code r')"
  from handle_mcp_json_shape [OF this] obtain res err
    where "r' = base_response res err (request_id_of payload)"
    by blast
  with base_response_shape [of res err "request_id_of payload"]
  show "obj_keys r' = [lit ''jsonrpc'', lit ''id'', lit ''result'']
      \<or> obj_keys r' = [lit ''jsonrpc'', lit ''id'', lit ''error'']"
    by (auto simp: obj_keys_def)
next
  assume "handle_mcp db payload = Inr (StreamingResponse (Inr frames))"
  from handle_mcp_frames [OF this] obtain inp
    where fr: "frames = map message_frame
            (map (event_payload (supplied_token payload)) [1..10]
             @ [base_response (text_result (py_upper db inp)) JNull (request_id_of payload)])"
    by blast
  let ?t = "base_response (text_result (py_upper db inp)) JNull (request_id_of payload)"
  have "frames \<noteq> []" and "last frames = message_frame ?t"
    using fr by simp_all
  moreover have "obj_keys ?t = [lit ''jsonrpc'', lit ''id'', lit ''result'']"
    by (simp add: base_response_def obj_keys_def)
  ultimately
  show "\<exists>terminal. frames \<noteq> [] \<and> last frames = message_frame terminal
           \<and> obj_keys terminal = [lit ''jsonrpc'', lit ''id'', lit ''result'']"
    by blast
qed

theorem envelope_result_xor_error_witness:
  "build_response ascii_db slow_request = Inr (method_not_found (JInt 7))
   \<and> obj_keys (method_not_found (JInt 7)) = [lit ''jsonrpc'', lit ''id'', lit ''error'']
   \<and> handle_mcp ascii_db list_request =
       Inr (JSONResponse 200 (base_response (JObj [(lit ''tools'', TOOLS)]) JNull JNull))
   \<and> obj_keys (base_response (JObj [(lit ''tools'', TOOLS)]) JNull JNull)
       = [lit ''jsonrpc'', lit ''id'', lit ''result'']
   \<and> handle_mcp ascii_db slow_request =
       Inr (StreamingResponse (Inr (map message_frame
         (map (event_payload (JStr (lit ''t1''))) [1..10]
          @ [base_response (text_result (lit ''ABC'')) JNull (JInt 7)]))))
   \<and> (\<exists>terminal.
         last (map message_frame
           (map (event_payload (JStr (lit ''t1''))) [1..10]
            @ [base_response (text_result (lit ''ABC'')) JNull (JInt 7)])) = message_frame terminal
         \<and> obj_keys terminal = [lit ''jsonrpc'', lit ''id'', lit ''result''])"
proof -
  have a: "build_response ascii_db slow_request = Inr (method_not_found (JInt 7))"
    by (simp add: build_response_def slow_request_def)
  have b: "handle_mcp ascii_db list_request =
       Inr (JSONResponse 200 (base_response (JObj [(lit ''tools'', TOOLS)]) JNull JNull))"
    by (simp add: handle_mcp_def list_request_def JSONResponse_init_def
        base_response_nonfinite base_response_surrogate)
  have c: "handle_mcp ascii_db slow_request =
       Inr (StreamingResponse (Inr (map message_frame
         (map (event_payload (JStr (lit ''t1''))) [1..10]
          @ [base_response (text_result (lit ''ABC'')) JNull (JInt 7)]))))"
    by (simp add: handle_mcp_def slow_request_def slow_uppercase_stream_def
        slow_uppercase_events_def py_str_def upper_abc)
  have not_result: "obj_keys (method_not_found (JInt 7)) \<noteq> [lit ''jsonrpc'', lit ''id'', lit ''result'']"
    "obj_keys (base_response (JObj [(lit ''tools'', TOOLS)]) JNull JNull)
       \<noteq> [lit ''jsonrpc'', lit ''id'', lit ''error'']"
    by (simp_all add: obj_keys_def method_not_found_def base_response_def)
  from a c
    envelope_result_xor_error [of ascii_db slow_request "method_not_found (JInt 7)" 200 JNull
      "map message_frame
         (map (event_payload (JStr (lit ''t1''))) [1..10]
          @ [base_response (text_result (lit ''ABC'')) JNull (JInt 7)])"]
  have ac: "obj_keys (method_not_found (JInt 7)) = [lit ''jsonrpc'', lit ''id'', lit ''error'']"
    "\<exists>terminal.
         last (map message_frame
           (map (event_payload (JStr (lit ''t1''))) [1..10]
            @ [base_response (text_result (lit ''ABC'')) JNull (JInt 7)])) = message_frame terminal
         \<and> obj_keys terminal = [lit ''jsonrpc'', lit ''id'', lit ''result'']"
    using not_result by simp_all
  from b
    envelope_result_xor_error [of ascii_db list_request JNull 200
      "base_response (JObj [(lit ''tools'', TOOLS)]) JNull JNull" "[]"]
  have "obj_keys (base_response (JObj [(lit ''tools'', TOOLS)]) JNull JNull)
       = [lit ''jsonrpc'', lit ''id'', lit ''result'']"
    using not_result by simp
  with a b c ac show ?thesis
    by blast
qed


section \<open>Progress notifications\<close>
text \<open>
  Claim C8, as amended. Whenever a \<^verbatim>\<open>tools/call\<close> is answered by a stream that yields frames,
  the frames before the terminal one are the ten progress notifications: each is the
  dictionary with exactly the keys \<^verbatim>\<open>jsonrpc\<close>, \<^verbatim>\<open>method\<close> and \<^verbatim>\<open>params\<close> (so no \<^verbatim>\<open>id\<close>), its
  method is \<^verbatim>\<open>notifications/progress\<close>, and its \<^verbatim>\<open>params.progressToken\<close> is the value the
  caller supplied in \<^verbatim>\<open>params._meta.progressToken\<close>. When the caller supplied none the key is
  there all the same, with the value \<^verbatim>\<open>null\<close>.
\<close>

theorem progress_notification_shape:
  assumes "handle_mcp db payload = Inr (StreamingResponse (Inr frames))"
  shows "butlast frames =
     map (\<lambda>i. message_frame
            (JObj [(lit ''jsonrpc'', JStr (lit ''2.0'')),
                   (lit ''method'', JStr (lit ''notifications/progress'')),
                   (lit ''params'',
                      JObj [(lit ''progress'', JInt i),
                            (lit ''total'', JInt 10),
                            (lit ''progressToken'', supplied_token payload),
                            (lit ''message'',
                               JStr (lit ''Server progress '' @ str_int (i * 10) @ lit ''%''))])]))
         [1..10]"
proof -
  from handle_mcp_frames [OF assms] obtain inp
    where fr: "frames = map message_frame
            (map (event_payload (supplied_token payload)) [1..10]
             @ [base_response (text_result (py_upper db inp)) JNull (request_id_of payload)])"
    by blast
  have pct: "\<And>i::int. i * 100 div 10 = i * 10"
    by simp
  show ?thesis
    unfolding fr by (simp add: butlast_append event_payload_def pct)
qed

text \<open>
  The claim as written fails: a caller that supplies no token gets notifications that
  hold the key \<^verbatim>\<open>progressToken\<close> with the value \<^verbatim>\<open>null\<close>; the key is not left out.
\<close>

theorem progress_token_null_counterexample:
  "handle_mcp ascii_db slow_request_without_token =
     Inr (StreamingResponse (Inr (
       map (\<lambda>i. message_frame
              (JObj [(lit ''jsonrpc'', JStr (lit ''2.0'')),
                     (lit ''method'', JStr (lit ''notifications/progress'')),
                     (lit ''params'',
                        JObj [(lit ''progress'', JInt i),
                              (lit ''total'', JInt 10),
                              (lit ''progressToken'', JNull),
                              (lit ''message'',
                                 JStr (lit ''Server progress '' @ str_int (i * 10) @ lit ''%''))])]))
           [1..10]
       @ [message_frame (base_response (text_result (lit ''ABC'')) JNull (JInt 8))])))"
proof -
  have pct: "\<And>i::int. i * 100 div 10 = i * 10"
    by simp
  show ?thesis
    by (simp add: handle_mcp_def slow_request_without_token_def slow_uppercase_stream_def
        slow_uppercase_events_def py_str_def upper_abc event_payload_def pct
        del: json_dumps.simps)
qed

theorem progress_notification_shape_witness:
  "handle_mcp ascii_db slow_request =
     Inr (StreamingResponse (Inr (map message_frame
       (map (event_payload (JStr (lit ''t1''))) [1..10]
        @ [base_response (text_result (lit ''ABC'')) JNull (JInt 7)]))))
   \<and> butlast (map message_frame
       (map (event_payload (JStr (lit ''t1''))) [1..10]
        @ [base_response (text_result (lit ''ABC'')) JNull (JInt 7)])) =
     map (\<lambda>i. message_frame
            (JObj [(lit ''jsonrpc'', JStr (lit ''2.0'')),
                   (lit ''method'', JStr (lit ''notifications/progress'')),
                   (lit ''params'',
                      JObj [(lit ''progress'', JInt i),
                            (lit ''total'', JInt 10),
                            (lit ''progressToken'', JStr (lit ''t1'')),
                            (lit ''message'',
                               JStr (lit ''Server progress '' @ str_int (i * 10) @ lit ''%''))])]))
         [1..10]"
proof -
  have c: "handle_mcp ascii_db slow_request =
       Inr (StreamingResponse (Inr (map message_frame
         (map (event_payload (JStr (lit ''t1''))) [1..10]
          @ [base_response (text_result (lit ''ABC'')) JNull (JInt 7)]))))"
    by (simp add: handle_mcp_def slow_request_def slow_uppercase_stream_def
        slow_uppercase_events_def py_str_def upper_abc)
  have tok: "supplied_token slow_request = JStr (lit ''t1'')"
    by (simp add: supplied_token_def obj_field_def slow_request_def)
  from progress_notification_shape [OF c] c show ?thesis
    by (simp only: tok simp_thms)
qed

section \<open>The event stream\<close>




section \<open>Notifications\<close>



end
